theory Spec2Isabelle
  imports Complex_Main
begin

section \<open>The Hartmann6 developer-API notebook\<close>

text \<open>
  The notebook \<^verbatim>\<open>tutorials/gpei_hartmann_developer.ipynb\<close> defines one function,
  \<^verbatim>\<open>hartmann_evaluation_function\<close>, one search space, one experiment and one
  optimization loop. Python floats are read as real numbers: rounding and overflow of
  IEEE doubles are outside this model. A Python value that is either a float or
  \<^verbatim>\<open>None\<close> is a \<open>real option\<close>.
\<close>

subsection \<open>Python and numpy primitives\<close>

datatype error = TypeError

text \<open>A parameter dictionary; \<^verbatim>\<open>parameterization.get(k)\<close> is \<open>parameterization k\<close>,
  with \<open>None\<close> for a missing key, as \<^verbatim>\<open>dict.get\<close> returns.\<close>

type_synonym parameterization = "string \<rightharpoonup> real"

text \<open>The array \<^verbatim>\<open>np.array([...])\<close> built from the results of \<^verbatim>\<open>get\<close>: a float
  array when every entry is a float, an object array holding \<^verbatim>\<open>None\<close> otherwise.\<close>

type_synonym ndarray = "real option list"

text \<open>The returned dictionary of metric name to (mean, standard error), in insertion order.\<close>

type_synonym metric_results = "(string \<times> (real \<times> real)) list"

definition py_range :: "nat \<Rightarrow> nat list" where
  "py_range n = [0..<n]"

function str_nat :: "nat \<Rightarrow> string" where
  "str_nat n = (if n < 10 then [''0123456789'' ! n]
                else str_nat (n div 10) @ [''0123456789'' ! (n mod 10)])"
  by pat_completeness auto
termination
  by (relation "measure (\<lambda>n. n)") auto

declare str_nat.simps [simp del]

text \<open>The f-string \<^verbatim>\<open>f"x{i}"\<close>.\<close>

definition format_x :: "nat \<Rightarrow> string" where
  "format_x i = ''x'' @ str_nat i"

definition np_array :: "real option list \<Rightarrow> ndarray" where
  "np_array xs = xs"

text \<open>\<^verbatim>\<open>x ** 2\<close>, element by element; \<^verbatim>\<open>None ** 2\<close> raises \<^verbatim>\<open>TypeError\<close>.\<close>

fun np_power2 :: "ndarray \<Rightarrow> error + real list" where
  "np_power2 [] = Inr []"
| "np_power2 (None # xs) = Inl TypeError"
| "np_power2 (Some v # xs) =
     (case np_power2 xs of Inl e \<Rightarrow> Inl e | Inr ys \<Rightarrow> Inr (v ^ 2 # ys))"

definition np_sum :: "real list \<Rightarrow> real" where
  "np_sum xs = sum_list xs"

definition np_sqrt :: "real \<Rightarrow> real" where
  "np_sqrt v = sqrt v"

subsection \<open>The library function \<^verbatim>\<open>hartmann6\<close>\<close>

text \<open>
  Modelled from the spec: \<^verbatim>\<open>hartmann6\<close> of
  \<^verbatim>\<open>ax.utils.measurement.synthetic_functions\<close> is imported by the notebook and its
  body is not among the sources. The spec calls it the standard Hartmann6 benchmark:
  \<open>f x = - (\<Sum>i. \<alpha> i * exp (- (\<Sum>j. A i j * (x j - P i j)\<^sup>2)))\<close> over four terms and six
  coordinates, with the constants of the benchmark below.
\<close>

definition hartmann6_alpha :: "real list" where
  "hartmann6_alpha = [1.0, 1.2, 3.0, 3.2]"

definition hartmann6_A :: "real list list" where
  "hartmann6_A =
     [[10, 3, 17, 3.5, 1.7, 8],
      [0.05, 10, 17, 0.1, 8, 14],
      [3, 3.5, 1.7, 10, 17, 8],
      [17, 8, 0.05, 10, 0.1, 14]]"

definition hartmann6_P :: "real list list" where
  "hartmann6_P = map (map (\<lambda>v. v / 10000))
     [[1312, 1696, 5569, 124, 8283, 5886],
      [2329, 4135, 8307, 3736, 1004, 9991],
      [2348, 1451, 3522, 2883, 3047, 6650],
      [4047, 8828, 8732, 5743, 1091, 381]]"

definition hartmann6_exponent :: "real list \<Rightarrow> real list \<Rightarrow> real list \<Rightarrow> real" where
  "hartmann6_exponent Ai Pi x =
     sum_list (map (\<lambda>(a, p, v). a * (v - p) ^ 2) (zip Ai (zip Pi x)))"

definition hartmann6_value :: "real list \<Rightarrow> real" where
  "hartmann6_value x =
     - sum_list (map (\<lambda>(al, Ai, Pi). al * exp (- hartmann6_exponent Ai Pi x))
                     (zip hartmann6_alpha (zip hartmann6_A hartmann6_P)))"

text \<open>The entries of an array as floats; arithmetic on an entry that is \<^verbatim>\<open>None\<close> raises.\<close>

fun float_entries :: "ndarray \<Rightarrow> error + real list" where
  "float_entries [] = Inr []"
| "float_entries (None # xs) = Inl TypeError"
| "float_entries (Some v # xs) =
     (case float_entries xs of Inl e \<Rightarrow> Inl e | Inr ys \<Rightarrow> Inr (v # ys))"

definition hartmann6 :: "ndarray \<Rightarrow> error + real" where
  "hartmann6 x =
     (case float_entries x of Inl e \<Rightarrow> Inl e | Inr v \<Rightarrow> Inr (hartmann6_value v))"

subsection \<open>The evaluation function\<close>

text \<open>
  \<^verbatim>\<open>
  def hartmann_evaluation_function(parameterization, weight=None):
      x = np.array([parameterization.get(f"x{i}") for i in range(6)])
      return {"hartmann6": (hartmann6(x), 0.0),
              "l2norm": (np.sqrt((x ** 2).sum()), 0.0)}
  \<close>
  The entries of the dictionary literal are evaluated in order, so a raise in
  \<^verbatim>\<open>hartmann6\<close> comes first and a raise in \<^verbatim>\<open>x ** 2\<close> second.
\<close>

definition hartmann_evaluation_function ::
    "parameterization \<Rightarrow> real option \<Rightarrow> error + metric_results" where
  "hartmann_evaluation_function parameterization weight =
     (let x = np_array (map (\<lambda>i. parameterization (format_x i)) (py_range 6)) in
      case hartmann6 x of
        Inl e \<Rightarrow> Inl e
      | Inr h \<Rightarrow>
          (case np_power2 x of
             Inl e \<Rightarrow> Inl e
           | Inr sq \<Rightarrow> Inr [(''hartmann6'', (h, 0.0)), (''l2norm'', (np_sqrt (np_sum sq), 0.0))]))"

text \<open>The two components \<^verbatim>\<open>d[k][0]\<close> and \<^verbatim>\<open>d[k][1]\<close> of the entry of a returned
  dictionary; \<open>None\<close> when the key is absent.\<close>

definition mean_of :: "metric_results \<Rightarrow> string \<Rightarrow> real option" where
  "mean_of d k = map_option fst (map_of d k)"

definition sem_of :: "metric_results \<Rightarrow> string \<Rightarrow> real option" where
  "sem_of d k = map_option snd (map_of d k)"

text \<open>A parameterization supplies all six coordinates when none of the six lookups is
  \<^verbatim>\<open>None\<close>.\<close>

definition supplies_coordinates :: "parameterization \<Rightarrow> bool" where
  "supplies_coordinates p = list_all (\<lambda>i. p (format_x i) \<noteq> None) (py_range 6)"

text \<open>Two parameterizations agree on the coordinates when the six lookups give the same
  results.\<close>

definition agree_on_coordinates :: "parameterization \<Rightarrow> parameterization \<Rightarrow> bool" where
  "agree_on_coordinates p q = list_all (\<lambda>i. p (format_x i) = q (format_x i)) (py_range 6)"

text \<open>Example inputs: the origin, the origin with one more key, and a dictionary without
  \<^verbatim>\<open>x5\<close>.\<close>

definition origin :: parameterization where
  "origin = [''x0'' \<mapsto> 0, ''x1'' \<mapsto> 0, ''x2'' \<mapsto> 0, ''x3'' \<mapsto> 0, ''x4'' \<mapsto> 0, ''x5'' \<mapsto> 0]"

definition origin_with_extra_key :: parameterization where
  "origin_with_extra_key = origin(''batch'' \<mapsto> 7)"

definition missing_x5 :: parameterization where
  "missing_x5 = [''x0'' \<mapsto> 0.5, ''x1'' \<mapsto> 0.5, ''x2'' \<mapsto> 0.5, ''x3'' \<mapsto> 0.5, ''x4'' \<mapsto> 0.5]"

subsection \<open>The search space\<close>

text \<open>
  Modelled from the spec: \<^verbatim>\<open>ParameterType\<close>, \<^verbatim>\<open>RangeParameter\<close> and
  \<^verbatim>\<open>SearchSpace\<close> are classes of the library, not among the sources. The spec describes a
  search-space constructor accepting ranged parameters; each constructor is a record of
  the keyword arguments the notebook passes.
  \<^verbatim>\<open>
  hartmann_search_space = SearchSpace(
      parameters=[
          RangeParameter(
              name=f"x{i}", parameter_type=ParameterType.FLOAT, lower=0.0, upper=1.0
          )
          for i in range(6)
      ]
  )
  \<close>
\<close>

datatype ParameterType = BOOL | INT | FLOAT | STRING

record RangeParameter =
  name :: string
  parameter_type :: ParameterType
  lower :: real
  upper :: real

record SearchSpace =
  parameters :: "RangeParameter list"

definition hartmann_search_space :: SearchSpace where
  "hartmann_search_space =
     \<lparr>parameters =
        map (\<lambda>i. \<lparr>name = format_x i, parameter_type = FLOAT, lower = 0.0, upper = 1.0\<rparr>)
            (py_range 6)\<rparr>"

subsection \<open>The experiment\<close>

text \<open>
  Modelled from the spec: \<^verbatim>\<open>ComparisonOp\<close>, \<^verbatim>\<open>L2NormMetric\<close>,
  \<^verbatim>\<open>OutcomeConstraint\<close>, \<^verbatim>\<open>SimpleExperiment\<close> and \<^verbatim>\<open>Models\<close> are classes of the
  library, not among the sources. The spec describes an experiment constructor accepting a
  search space, an evaluation callback, an objective name, a minimize flag and a list of
  outcome constraints, and one in-memory experiment object that accumulates trials. Each
  constructor is a record of the keyword arguments the notebook passes; a new experiment
  has no trials.
  \<^verbatim>\<open>
  exp = SimpleExperiment(
      name="test_branin",
      search_space=hartmann_search_space,
      evaluation_function=hartmann_evaluation_function,
      objective_name="hartmann6",
      minimize=True,
      outcome_constraints=[
          OutcomeConstraint(
              metric=L2NormMetric(
                  name="l2norm", param_names=[f"x{i}" for i in range(6)], noise_sd=0.2
              ),
              op=ComparisonOp.LEQ,
              bound=1.25,
              relative=False,
          )
      ],
  )
  \<close>
\<close>

datatype ComparisonOp = GEQ | LEQ

record L2NormMetric =
  metric_name :: string
  param_names :: "string list"
  noise_sd :: real

record OutcomeConstraint =
  metric :: L2NormMetric
  op :: ComparisonOp
  bound :: real
  relative :: bool

datatype Models = SOBOL | GPEI

text \<open>The data \<^verbatim>\<open>exp.eval()\<close> retrieves: the indices of the trials it holds rows for.\<close>

type_synonym Data = "nat list"

text \<open>A generator run records the strategy that produced it, the number of arms asked of
  \<^verbatim>\<open>gen\<close> and the data its model was built from. The arms themselves are the library's
  choice and are not modelled.\<close>

record GeneratorRun =
  generated_by :: Models
  num_arms :: nat
  fitted_on :: Data

record ModelBridge =
  strategy :: Models
  training_data :: Data

record SimpleExperiment =
  experiment_name :: string
  search_space :: SearchSpace
  evaluation_function :: "parameterization \<Rightarrow> real option \<Rightarrow> error + metric_results"
  objective_name :: string
  minimize :: bool
  outcome_constraints :: "OutcomeConstraint list"
  trials :: "GeneratorRun list"

definition exp_notebook :: SimpleExperiment where
  "exp_notebook =
     \<lparr>experiment_name = ''test_branin'',
      search_space = hartmann_search_space,
      evaluation_function = hartmann_evaluation_function,
      objective_name = ''hartmann6'',
      minimize = True,
      outcome_constraints =
        [\<lparr>metric = \<lparr>metric_name = ''l2norm'', param_names = map format_x (py_range 6),
                     noise_sd = 0.2\<rparr>,
          op = LEQ,
          bound = 1.25,
          relative = False\<rparr>],
      trials = []\<rparr>"

subsection \<open>The optimization loop\<close>

text \<open>
  Modelled from the spec: the two generation strategies, each with a \<^verbatim>\<open>gen(n)\<close> call
  returning proposed trial arms, the trial-creation call \<^verbatim>\<open>new_trial\<close> and the
  data-retrieval call \<^verbatim>\<open>eval\<close> belong to the library, not to the sources.
  \<^verbatim>\<open>new_trial\<close> appends a trial to the experiment, \<^verbatim>\<open>eval\<close> returns data for every
  trial of the experiment, and a model keeps the data it was constructed with.
\<close>

definition new_trial :: "SimpleExperiment \<Rightarrow> GeneratorRun \<Rightarrow> SimpleExperiment" where
  "new_trial e generator_run = e\<lparr>trials := trials e @ [generator_run]\<rparr>"

definition eval_data :: "SimpleExperiment \<Rightarrow> Data" where
  "eval_data e = py_range (length (trials e))"

definition Models_SOBOL :: "SearchSpace \<Rightarrow> ModelBridge" where
  "Models_SOBOL space = \<lparr>strategy = SOBOL, training_data = []\<rparr>"

definition Models_GPEI :: "SimpleExperiment \<Rightarrow> Data \<Rightarrow> ModelBridge" where
  "Models_GPEI experiment data = \<lparr>strategy = GPEI, training_data = data\<rparr>"

definition gen :: "ModelBridge \<Rightarrow> nat \<Rightarrow> GeneratorRun" where
  "gen m n = \<lparr>generated_by = strategy m, num_arms = n, fitted_on = training_data m\<rparr>"

text \<open>
  The state the cell works on: the variable \<^verbatim>\<open>exp\<close> and the lines printed so far.
  \<^verbatim>\<open>
  print(f"Running Sobol initialization trials...")
  sobol = Models.SOBOL(exp.search_space)
  for i in range(5):
      exp.new_trial(generator_run=sobol.gen(1))

  for i in range(15):
      print(f"Running GP+EI optimization trial {i+1}/15...")
      # Reinitialize GP+EI model at each step with updated data.
      gpei = Models.GPEI(experiment=exp, data=exp.eval())
      batch = exp.new_trial(generator_run=gpei.gen(1))

  print("Done!")
  \<close>
\<close>

record kernel =
  exp_var :: SimpleExperiment
  stdout :: "string list"

definition print :: "string \<Rightarrow> kernel \<Rightarrow> kernel" where
  "print line k = k\<lparr>stdout := stdout k @ [line]\<rparr>"

fun sobol_loop :: "ModelBridge \<Rightarrow> nat list \<Rightarrow> kernel \<Rightarrow> kernel" where
  "sobol_loop sobol [] k = k"
| "sobol_loop sobol (i # rest) k =
     sobol_loop sobol rest (k\<lparr>exp_var := new_trial (exp_var k) (gen sobol 1)\<rparr>)"

fun gpei_loop :: "nat list \<Rightarrow> kernel \<Rightarrow> kernel" where
  "gpei_loop [] k = k"
| "gpei_loop (i # rest) k =
     (let k1 = print (''Running GP+EI optimization trial '' @ str_nat (i + 1) @ ''/15...'') k;
          gpei = Models_GPEI (exp_var k1) (eval_data (exp_var k1));
          k2 = k1\<lparr>exp_var := new_trial (exp_var k1) (gen gpei 1)\<rparr>
      in gpei_loop rest k2)"

definition perform_optimization :: "kernel \<Rightarrow> kernel" where
  "perform_optimization k =
     (let k1 = print ''Running Sobol initialization trials...'' k;
          sobol = Models_SOBOL (search_space (exp_var k1));
          k2 = sobol_loop sobol (py_range 5) k1;
          k3 = gpei_loop (py_range 15) k2
      in print ''Done!'' k3)"

text \<open>The kernel when the cell starts: the experiment as constructed, nothing printed.\<close>

definition before_optimization :: kernel where
  "before_optimization = \<lparr>exp_var = exp_notebook, stdout = []\<rparr>"

section \<open>Properties of the evaluation function\<close>

lemma format_x_values:
  "format_x 0 = ''x0''" "format_x (Suc 0) = ''x1''" "format_x 2 = ''x2''"
  "format_x 3 = ''x3''" "format_x 4 = ''x4''" "format_x 5 = ''x5''"
  by (simp_all add: format_x_def str_nat.simps)

lemma py_range_6: "py_range 6 = [0, Suc 0, 2, 3, 4, 5]"
  by (simp add: py_range_def upt_rec)

lemma coordinates_array:
  "map (\<lambda>i. p (format_x i)) (py_range 6) =
     [p ''x0'', p ''x1'', p ''x2'', p ''x3'', p ''x4'', p ''x5'']"
  by (simp add: py_range_6 format_x_values)

lemma supplies_coordinates_iff:
  "supplies_coordinates p \<longleftrightarrow>
     p ''x0'' \<noteq> None \<and> p ''x1'' \<noteq> None \<and> p ''x2'' \<noteq> None \<and>
     p ''x3'' \<noteq> None \<and> p ''x4'' \<noteq> None \<and> p ''x5'' \<noteq> None"
  by (simp add: supplies_coordinates_def py_range_6 format_x_values)

lemma agree_on_coordinates_iff:
  "agree_on_coordinates p q \<longleftrightarrow>
     p ''x0'' = q ''x0'' \<and> p ''x1'' = q ''x1'' \<and> p ''x2'' = q ''x2'' \<and>
     p ''x3'' = q ''x3'' \<and> p ''x4'' = q ''x4'' \<and> p ''x5'' = q ''x5''"
  by (simp add: agree_on_coordinates_def py_range_6 format_x_values)

text \<open>An array holding \<^verbatim>\<open>None\<close> makes \<^verbatim>\<open>x ** 2\<close> and the arithmetic of \<^verbatim>\<open>hartmann6\<close> raise.\<close>

lemma np_power2_raises: "None \<in> set x \<Longrightarrow> np_power2 x = Inl TypeError"
proof (induction x)
  case Nil
  then show ?case by simp
next
  case (Cons a x)
  show ?case
  proof (cases a)
    case None
    then show ?thesis by simp
  next
    case (Some v)
    with Cons have "np_power2 x = Inl TypeError" by simp
    with Some show ?thesis by simp
  qed
qed

lemma float_entries_raises: "None \<in> set x \<Longrightarrow> float_entries x = Inl TypeError"
proof (induction x)
  case Nil
  then show ?case by simp
next
  case (Cons a x)
  show ?case
  proof (cases a)
    case None
    then show ?thesis by simp
  next
    case (Some v)
    with Cons have "float_entries x = Inl TypeError" by simp
    with Some show ?thesis by simp
  qed
qed

text \<open>The result on a dictionary that supplies the six coordinates, written out.\<close>

lemma evaluation_on_coordinates:
  assumes "p ''x0'' = Some x0" "p ''x1'' = Some x1" "p ''x2'' = Some x2"
    and "p ''x3'' = Some x3" "p ''x4'' = Some x4" "p ''x5'' = Some x5"
  shows "hartmann_evaluation_function p w =
           Inr [(''hartmann6'', (hartmann6_value [x0, x1, x2, x3, x4, x5], 0)),
                (''l2norm'', (sqrt (x0\<^sup>2 + x1\<^sup>2 + x2\<^sup>2 + x3\<^sup>2 + x4\<^sup>2 + x5\<^sup>2), 0))]"
  using assms
  by (simp add: hartmann_evaluation_function_def coordinates_array np_array_def
      hartmann6_def np_sum_def np_sqrt_def)

lemma evaluation_raises:
  assumes "\<not> supplies_coordinates p"
  shows "hartmann_evaluation_function p w = Inl TypeError"
proof -
  let ?x = "map (\<lambda>i. p (format_x i)) (py_range 6)"
  from assms obtain i where "i \<in> set (py_range 6)" and "p (format_x i) = None"
    by (auto simp: supplies_coordinates_def list_all_iff)
  then have "None \<in> set ?x"
    by (force simp: image_iff)
  then have "float_entries ?x = Inl TypeError"
    by (rule float_entries_raises)
  then show ?thesis
    by (simp add: hartmann_evaluation_function_def np_array_def hartmann6_def)
qed

lemma origin_values:
  "origin ''x0'' = Some 0" "origin ''x1'' = Some 0" "origin ''x2'' = Some 0"
  "origin ''x3'' = Some 0" "origin ''x4'' = Some 0" "origin ''x5'' = Some 0"
  by (simp_all add: origin_def)

lemma origin_supplies: "supplies_coordinates origin"
  by (simp add: supplies_coordinates_iff origin_values)

lemma missing_x5_lacks: "\<not> supplies_coordinates missing_x5"
  by (simp add: supplies_coordinates_iff missing_x5_def)

lemma two_metrics_shape:
  assumes "supplies_coordinates p"
  shows "\<exists>h n. hartmann_evaluation_function p w =
           Inr [(''hartmann6'', (h, 0)), (''l2norm'', (n, 0))]"
proof -
  from assms obtain x0 x1 x2 x3 x4 x5 where
    "p ''x0'' = Some x0" "p ''x1'' = Some x1" "p ''x2'' = Some x2"
    "p ''x3'' = Some x3" "p ''x4'' = Some x4" "p ''x5'' = Some x5"
    by (auto simp: supplies_coordinates_iff)
  then show ?thesis
    by (simp add: evaluation_on_coordinates)
qed

text \<open>
  C1. For every parameterization that supplies the six coordinates \<^verbatim>\<open>x0\<close> to
  \<^verbatim>\<open>x5\<close>, the evaluation function returns a dictionary with exactly the two keys
  \<^verbatim>\<open>"hartmann6"\<close> and \<^verbatim>\<open>"l2norm"\<close>, each mapped to a pair of a mean and a
  standard error, and both standard errors are 0.0.
\<close>

theorem evaluation_two_metrics_zero_sem:
  assumes "supplies_coordinates p"
  shows "\<exists>d h n. hartmann_evaluation_function p w = Inr d \<and>
           map fst d = [''hartmann6'', ''l2norm''] \<and>
           map snd d = [(h, 0), (n, 0)]"
  using two_metrics_shape [OF assms, of w] by auto

theorem evaluation_two_metrics_zero_sem_witness:
  "supplies_coordinates origin \<and>
   (\<exists>d h n. hartmann_evaluation_function origin None = Inr d \<and>
      map fst d = [''hartmann6'', ''l2norm''] \<and>
      map snd d = [(h, 0), (n, 0)])"
  using evaluation_two_metrics_zero_sem [of origin None] origin_supplies
  by simp

text \<open>
  C2. For every parameterization that supplies the six coordinates, the mean returned
  under \<^verbatim>\<open>"l2norm"\<close> is the Euclidean norm \<open>sqrt (x0\<^sup>2 + ... + x5\<^sup>2)\<close> of the
  coordinate vector; at the origin it is 0.0 (the witness).
\<close>

theorem l2norm_mean_is_euclidean_norm:
  assumes "p ''x0'' = Some x0" "p ''x1'' = Some x1" "p ''x2'' = Some x2"
    and "p ''x3'' = Some x3" "p ''x4'' = Some x4" "p ''x5'' = Some x5"
  shows "\<exists>d. hartmann_evaluation_function p w = Inr d \<and>
           mean_of d ''l2norm'' =
             Some (sqrt (x0\<^sup>2 + x1\<^sup>2 + x2\<^sup>2 + x3\<^sup>2 + x4\<^sup>2 + x5\<^sup>2))"
  by (simp add: evaluation_on_coordinates [OF assms] mean_of_def)

theorem l2norm_mean_is_euclidean_norm_witness:
  "origin ''x0'' = Some 0 \<and> origin ''x1'' = Some 0 \<and> origin ''x2'' = Some 0 \<and>
   origin ''x3'' = Some 0 \<and> origin ''x4'' = Some 0 \<and> origin ''x5'' = Some 0 \<and>
   (\<exists>d. hartmann_evaluation_function origin None = Inr d \<and>
      mean_of d ''l2norm'' = Some 0)"
  using l2norm_mean_is_euclidean_norm [of origin 0 0 0 0 0 0 None] origin_values
  by simp

text \<open>The benchmark on a vector of six coordinates, with the sums written out.\<close>

lemma hartmann6_exponent_unfolded:
  "hartmann6_exponent [a0, a1, a2, a3, a4, a5] [p0, p1, p2, p3, p4, p5] [x0, x1, x2, x3, x4, x5] =
     a0 * (x0 - p0)\<^sup>2 + a1 * (x1 - p1)\<^sup>2 + a2 * (x2 - p2)\<^sup>2
       + a3 * (x3 - p3)\<^sup>2 + a4 * (x4 - p4)\<^sup>2 + a5 * (x5 - p5)\<^sup>2"
  by (simp add: hartmann6_exponent_def)

lemma hartmann6_value_unfolded:
  "hartmann6_value [x0, x1, x2, x3, x4, x5] =
     - (1.0 * exp (- (10 * (x0 - 0.1312)\<^sup>2 + 3 * (x1 - 0.1696)\<^sup>2 + 17 * (x2 - 0.5569)\<^sup>2
                      + 3.5 * (x3 - 0.0124)\<^sup>2 + 1.7 * (x4 - 0.8283)\<^sup>2 + 8 * (x5 - 0.5886)\<^sup>2))
        + 1.2 * exp (- (0.05 * (x0 - 0.2329)\<^sup>2 + 10 * (x1 - 0.4135)\<^sup>2 + 17 * (x2 - 0.8307)\<^sup>2
                      + 0.1 * (x3 - 0.3736)\<^sup>2 + 8 * (x4 - 0.1004)\<^sup>2 + 14 * (x5 - 0.9991)\<^sup>2))
        + 3.0 * exp (- (3 * (x0 - 0.2348)\<^sup>2 + 3.5 * (x1 - 0.1451)\<^sup>2 + 1.7 * (x2 - 0.3522)\<^sup>2
                      + 10 * (x3 - 0.2883)\<^sup>2 + 17 * (x4 - 0.3047)\<^sup>2 + 8 * (x5 - 0.6650)\<^sup>2))
        + 3.2 * exp (- (17 * (x0 - 0.4047)\<^sup>2 + 8 * (x1 - 0.8828)\<^sup>2 + 0.05 * (x2 - 0.8732)\<^sup>2
                      + 10 * (x3 - 0.5743)\<^sup>2 + 0.1 * (x4 - 0.1091)\<^sup>2 + 14 * (x5 - 0.0381)\<^sup>2)))"
proof -
  have rows: "zip hartmann6_alpha (zip hartmann6_A hartmann6_P) =
     [(1.0, [10, 3, 17, 3.5, 1.7, 8], [0.1312, 0.1696, 0.5569, 0.0124, 0.8283, 0.5886]),
      (1.2, [0.05, 10, 17, 0.1, 8, 14], [0.2329, 0.4135, 0.8307, 0.3736, 0.1004, 0.9991]),
      (3.0, [3, 3.5, 1.7, 10, 17, 8], [0.2348, 0.1451, 0.3522, 0.2883, 0.3047, 0.6650]),
      (3.2, [17, 8, 0.05, 10, 0.1, 14], [0.4047, 0.8828, 0.8732, 0.5743, 0.1091, 0.0381])]"
    by (simp add: hartmann6_alpha_def hartmann6_A_def hartmann6_P_def)
  show ?thesis
    unfolding hartmann6_value_def rows list.map prod.case hartmann6_exponent_unfolded
    by simp
qed

text \<open>
  C3. For every parameterization that supplies the six coordinates, the mean returned
  under \<^verbatim>\<open>"hartmann6"\<close> is the value of the standard Hartmann6 benchmark at the vector
  \<open>(x0, ..., x5)\<close>.
\<close>

theorem hartmann6_mean_is_benchmark_value:
  assumes "p ''x0'' = Some x0" "p ''x1'' = Some x1" "p ''x2'' = Some x2"
    and "p ''x3'' = Some x3" "p ''x4'' = Some x4" "p ''x5'' = Some x5"
  shows "\<exists>d. hartmann_evaluation_function p w = Inr d \<and>
           mean_of d ''hartmann6'' =
             Some (hartmann6_value [x0, x1, x2, x3, x4, x5])"
  by (simp add: evaluation_on_coordinates [OF assms] mean_of_def)

theorem hartmann6_mean_is_benchmark_value_witness:
  "origin ''x0'' = Some 0 \<and> origin ''x1'' = Some 0 \<and> origin ''x2'' = Some 0 \<and>
   origin ''x3'' = Some 0 \<and> origin ''x4'' = Some 0 \<and> origin ''x5'' = Some 0 \<and>
   (\<exists>d. hartmann_evaluation_function origin None = Inr d \<and>
      mean_of d ''hartmann6'' = Some (hartmann6_value [0, 0, 0, 0, 0, 0]))"
  using hartmann6_mean_is_benchmark_value [of origin 0 0 0 0 0 0 None] origin_values
  by simp

text \<open>
  C4, as stated: the evaluation function raises no error on any parameter dictionary,
  also one that lacks some of the keys. It fails on the dictionary that supplies
  \<^verbatim>\<open>x0\<close> to \<^verbatim>\<open>x4\<close> and not \<^verbatim>\<open>x5\<close>: the lookup gives \<^verbatim>\<open>None\<close> and the
  arithmetic on it raises \<^verbatim>\<open>TypeError\<close>.
\<close>

theorem evaluation_total_counterexample:
  "hartmann_evaluation_function missing_x5 None = Inl TypeError"
  by (simp add: evaluation_raises missing_x5_lacks)

text \<open>
  C4, amended: the evaluation function returns a dictionary on every parameter dictionary
  that supplies the six coordinates, and raises \<^verbatim>\<open>TypeError\<close> on every parameter
  dictionary that lacks one of them.
\<close>

theorem evaluation_returns_iff_coordinates_supplied:
  "(supplies_coordinates p \<longrightarrow> (\<exists>d. hartmann_evaluation_function p w = Inr d)) \<and>
   (\<not> supplies_coordinates p \<longrightarrow> hartmann_evaluation_function p w = Inl TypeError)"
proof (intro conjI impI)
  assume "supplies_coordinates p"
  then show "\<exists>d. hartmann_evaluation_function p w = Inr d"
    using two_metrics_shape [of p w] by blast
next
  assume "\<not> supplies_coordinates p"
  then show "hartmann_evaluation_function p w = Inl TypeError"
    by (rule evaluation_raises)
qed

theorem evaluation_returns_iff_coordinates_supplied_witness:
  "supplies_coordinates origin \<and>
   (\<exists>d. hartmann_evaluation_function origin None = Inr d) \<and>
   \<not> supplies_coordinates missing_x5 \<and>
   hartmann_evaluation_function missing_x5 (Some 1) = Inl TypeError"
  using evaluation_returns_iff_coordinates_supplied [of origin None]
    evaluation_returns_iff_coordinates_supplied [of missing_x5 "Some 1"]
    origin_supplies missing_x5_lacks
  by simp

text \<open>
  C5. The weight is unused and the function is deterministic: for any parameterization
  and any two weights, \<^verbatim>\<open>None\<close> included, the two calls return equal results. The
  function reads and writes no state.
\<close>

theorem evaluation_ignores_weight:
  "hartmann_evaluation_function p w1 = hartmann_evaluation_function p w2"
  by (simp add: hartmann_evaluation_function_def)

text \<open>
  C9. The result depends only on the values at the keys \<^verbatim>\<open>x0\<close> to \<^verbatim>\<open>x5\<close>: two
  parameter dictionaries that agree on these six lookups give equal results, whatever
  other keys they hold.
\<close>

theorem evaluation_depends_on_coordinates_only:
  assumes "agree_on_coordinates p q"
  shows "hartmann_evaluation_function p w = hartmann_evaluation_function q w'"
proof -
  from assms
  have same_array:
    "map (\<lambda>i. p (format_x i)) (py_range 6) = map (\<lambda>i. q (format_x i)) (py_range 6)"
    by (simp add: agree_on_coordinates_def list_all_iff)
  show ?thesis
    by (simp only: hartmann_evaluation_function_def same_array)
qed

theorem evaluation_depends_on_coordinates_only_witness:
  "agree_on_coordinates origin origin_with_extra_key \<and>
   origin ''batch'' \<noteq> origin_with_extra_key ''batch'' \<and>
   hartmann_evaluation_function origin None =
     hartmann_evaluation_function origin_with_extra_key (Some 1)"
  using evaluation_depends_on_coordinates_only [of origin origin_with_extra_key None "Some 1"]
  by (simp add: agree_on_coordinates_iff origin_with_extra_key_def origin_def)

section \<open>Properties of the search space and the experiment\<close>

lemma coordinate_names: "map format_x (py_range 6) = [''x0'', ''x1'', ''x2'', ''x3'', ''x4'', ''x5'']"
  by (simp add: py_range_6 format_x_values)

lemma search_space_parameters:
  "parameters hartmann_search_space =
     map (\<lambda>k. \<lparr>name = k, parameter_type = FLOAT, lower = 0, upper = 1\<rparr>)
         [''x0'', ''x1'', ''x2'', ''x3'', ''x4'', ''x5'']"
  by (simp add: hartmann_search_space_def py_range_6 format_x_values)

lemma replicate_6: "replicate 6 v = [v, v, v, v, v, v]"
  by (simp add: numeral_eq_Suc)

text \<open>
  C6. The search space consists of exactly six range parameters, named \<^verbatim>\<open>x0\<close> to
  \<^verbatim>\<open>x5\<close> in this order, each of type \<^verbatim>\<open>FLOAT\<close>, each with lower bound 0.0 and upper
  bound 1.0.
\<close>

theorem search_space_six_unit_ranges:
  "length (parameters hartmann_search_space) = 6 \<and>
   map name (parameters hartmann_search_space) = [''x0'', ''x1'', ''x2'', ''x3'', ''x4'', ''x5''] \<and>
   map parameter_type (parameters hartmann_search_space) = replicate 6 FLOAT \<and>
   map lower (parameters hartmann_search_space) = replicate 6 0 \<and>
   map upper (parameters hartmann_search_space) = replicate 6 1"
  by (simp add: search_space_parameters replicate_6)

text \<open>
  C7. The experiment is built with the search space, the evaluation function as callback,
  the objective name \<^verbatim>\<open>"hartmann6"\<close>, the minimize flag set, and a list of exactly one
  outcome constraint: the metric named \<^verbatim>\<open>"l2norm"\<close>, comparison \<^verbatim>\<open>LEQ\<close>, bound
  1.25, not relative.
\<close>

theorem experiment_configuration:
  "search_space exp_notebook = hartmann_search_space \<and>
   evaluation_function exp_notebook = hartmann_evaluation_function \<and>
   objective_name exp_notebook = ''hartmann6'' \<and>
   minimize exp_notebook \<and>
   length (outcome_constraints exp_notebook) = 1 \<and>
   map (metric_name \<circ> metric) (outcome_constraints exp_notebook) = [''l2norm''] \<and>
   map op (outcome_constraints exp_notebook) = [LEQ] \<and>
   map bound (outcome_constraints exp_notebook) = [1.25] \<and>
   map relative (outcome_constraints exp_notebook) = [False]"
  by (simp add: exp_notebook_def)

text \<open>
  C10. The metric of the outcome constraint is an \<^verbatim>\<open>L2NormMetric\<close> over the parameter
  names \<^verbatim>\<open>x0\<close> to \<^verbatim>\<open>x5\<close> with \<^verbatim>\<open>noise_sd = 0.2\<close>, while every result of the
  experiment's evaluation function reports the standard error 0.0 under \<^verbatim>\<open>"l2norm"\<close>:
  the declared noise level differs from the reported standard error.
\<close>

theorem constraint_noise_differs_from_reported_sem:
  "\<exists>c. outcome_constraints exp_notebook = [c] \<and>
        param_names (metric c) = [''x0'', ''x1'', ''x2'', ''x3'', ''x4'', ''x5''] \<and>
        noise_sd (metric c) = 0.2 \<and>
        (\<forall>p w d. evaluation_function exp_notebook p w = Inr d \<longrightarrow>
           sem_of d (metric_name (metric c)) = Some 0 \<and>
           sem_of d (metric_name (metric c)) \<noteq> Some (noise_sd (metric c)))"
proof -
  let ?m = "\<lparr>metric_name = ''l2norm'', param_names = map format_x (py_range 6),
             noise_sd = 0.2\<rparr>"
  let ?c = "\<lparr>metric = ?m, op = LEQ, bound = 1.25, relative = False\<rparr>"
  have only: "outcome_constraints exp_notebook = [?c]"
    by (simp add: exp_notebook_def)
  have names: "param_names (metric ?c) = [''x0'', ''x1'', ''x2'', ''x3'', ''x4'', ''x5'']"
    by (simp add: coordinate_names)
  have declared: "noise_sd (metric ?c) = 0.2"
    by simp
  have reported: "sem_of d (metric_name (metric ?c)) = Some 0 \<and>
      sem_of d (metric_name (metric ?c)) \<noteq> Some (noise_sd (metric ?c))"
    if returned: "evaluation_function exp_notebook p w = Inr d" for p w d
  proof -
    from returned have run: "hartmann_evaluation_function p w = Inr d"
      by (simp add: exp_notebook_def)
    have "supplies_coordinates p"
    proof (rule ccontr)
      assume "\<not> supplies_coordinates p"
      then have "hartmann_evaluation_function p w = Inl TypeError"
        by (rule evaluation_raises)
      with run show False by simp
    qed
    then obtain h n where "hartmann_evaluation_function p w =
        Inr [(''hartmann6'', (h, 0)), (''l2norm'', (n, 0))]"
      using two_metrics_shape by blast
    with run have "d = [(''hartmann6'', (h, 0)), (''l2norm'', (n, 0))]"
      by simp
    then show ?thesis
      by (simp add: sem_of_def)
  qed
  show ?thesis
  proof (rule exI [of _ ?c], intro conjI)
    show "outcome_constraints exp_notebook = [?c]"
      by (rule only)
    show "param_names (metric ?c) = [''x0'', ''x1'', ''x2'', ''x3'', ''x4'', ''x5'']"
      by (rule names)
    show "noise_sd (metric ?c) = 0.2"
      by (rule declared)
    show "\<forall>p w d. evaluation_function exp_notebook p w = Inr d \<longrightarrow>
        sem_of d (metric_name (metric ?c)) = Some 0 \<and>
        sem_of d (metric_name (metric ?c)) \<noteq> Some (noise_sd (metric ?c))"
      by (intro allI impI) (rule reported)
  qed
qed

theorem constraint_noise_differs_from_reported_sem_witness:
  "\<exists>c. outcome_constraints exp_notebook = [c] \<and>
        evaluation_function exp_notebook origin None =
          Inr [(''hartmann6'', (hartmann6_value [0, 0, 0, 0, 0, 0], 0)), (''l2norm'', (0, 0))] \<and>
        sem_of [(''hartmann6'', (hartmann6_value [0, 0, 0, 0, 0, 0], 0)), (''l2norm'', (0, 0))]
          (metric_name (metric c)) = Some 0 \<and>
        noise_sd (metric c) = 0.2"
proof -
  have returned: "evaluation_function exp_notebook origin None =
     Inr [(''hartmann6'', (hartmann6_value [0, 0, 0, 0, 0, 0], 0)), (''l2norm'', (0, 0))]"
    by (simp add: exp_notebook_def evaluation_on_coordinates [OF origin_values])
  from constraint_noise_differs_from_reported_sem obtain c where
    "outcome_constraints exp_notebook = [c]" and "noise_sd (metric c) = 0.2" and
    "\<forall>p w d. evaluation_function exp_notebook p w = Inr d \<longrightarrow>
       sem_of d (metric_name (metric c)) = Some 0 \<and>
       sem_of d (metric_name (metric c)) \<noteq> Some (noise_sd (metric c))"
    by (elim exE conjE)
  with returned show ?thesis
    by (intro exI [of _ c]) simp
qed

section \<open>Properties of the optimization loop\<close>

text \<open>Each pass of the first loop appends one trial generated by the Sobol model with
  \<^verbatim>\<open>gen(1)\<close> and prints nothing.\<close>

lemma sobol_loop_state:
  "exp_var (sobol_loop sobol is k) =
     (exp_var k)\<lparr>trials := trials (exp_var k) @ replicate (length is) (gen sobol 1)\<rparr> \<and>
   stdout (sobol_loop sobol is k) = stdout k"
proof (induction "is" arbitrary: k)
  case Nil
  then show ?case by simp
next
  case (Cons i rest)
  then show ?case
    by (simp add: new_trial_def replicate_app_Cons_same)
qed

text \<open>Each pass of the second loop builds a GP+EI model from the data of all trials made so
  far, appends one trial generated by it with \<^verbatim>\<open>gen(1)\<close>, and prints one line.\<close>

lemma trials_gpei_loop:
  "trials (exp_var (gpei_loop is k)) =
     trials (exp_var k) @
       map (\<lambda>n. \<lparr>generated_by = GPEI, num_arms = 1, fitted_on = py_range n\<rparr>)
           [length (trials (exp_var k))..<length (trials (exp_var k)) + length is]"
proof (induction "is" arbitrary: k)
  case Nil
  then show ?case by simp
next
  case (Cons i rest)
  let ?n = "length (trials (exp_var k))"
  have "[?n..<?n + length (i # rest)] = ?n # [Suc ?n..<Suc ?n + length rest]"
    by (subst upt_rec) simp
  with Cons show ?case
    by (simp add: new_trial_def gen_def Models_GPEI_def eval_data_def print_def)
qed

lemma stdout_gpei_loop:
  "stdout (gpei_loop is k) =
     stdout k @ map (\<lambda>i. ''Running GP+EI optimization trial '' @ str_nat (i + 1) @ ''/15...'') is"
proof (induction "is" arbitrary: k)
  case Nil
  then show ?case by simp
next
  case (Cons i rest)
  then show ?case
    by (simp add: print_def)
qed

lemma trials_perform_optimization:
  "trials (exp_var (perform_optimization k)) =
     trials (exp_var k) @ replicate 5 \<lparr>generated_by = SOBOL, num_arms = 1, fitted_on = []\<rparr>
       @ map (\<lambda>n. \<lparr>generated_by = GPEI, num_arms = 1, fitted_on = py_range n\<rparr>)
             [length (trials (exp_var k)) + 5..<length (trials (exp_var k)) + 20]"
  by (simp add: perform_optimization_def trials_gpei_loop sobol_loop_state
      gen_def Models_SOBOL_def py_range_def print_def Let_def add.commute)

text \<open>The lines printed are those the notebook records as the output of the cell.\<close>

lemma py_range_15: "py_range 15 = [0, 1, 2, 3, 4, 5, 6, 7, 8, 9, 10, 11, 12, 13, 14]"
  by (simp add: py_range_def upt_rec)

lemma gpei_loop_lines:
  "map (\<lambda>i. ''Running GP+EI optimization trial '' @ str_nat (i + 1) @ ''/15...'')
       (py_range 15) =
     [''Running GP+EI optimization trial 1/15...'',
      ''Running GP+EI optimization trial 2/15...'',
      ''Running GP+EI optimization trial 3/15...'',
      ''Running GP+EI optimization trial 4/15...'',
      ''Running GP+EI optimization trial 5/15...'',
      ''Running GP+EI optimization trial 6/15...'',
      ''Running GP+EI optimization trial 7/15...'',
      ''Running GP+EI optimization trial 8/15...'',
      ''Running GP+EI optimization trial 9/15...'',
      ''Running GP+EI optimization trial 10/15...'',
      ''Running GP+EI optimization trial 11/15...'',
      ''Running GP+EI optimization trial 12/15...'',
      ''Running GP+EI optimization trial 13/15...'',
      ''Running GP+EI optimization trial 14/15...'',
      ''Running GP+EI optimization trial 15/15...'']"
  unfolding py_range_15 list.map by (simp add: str_nat.simps)

lemma stdout_perform_optimization:
  "stdout (perform_optimization before_optimization) =
     ''Running Sobol initialization trials...'' #
     map (\<lambda>i. ''Running GP+EI optimization trial '' @ str_nat (i + 1) @ ''/15...'')
         (py_range 15) @
     [''Done!'']"
  by (simp add: perform_optimization_def stdout_gpei_loop sobol_loop_state print_def
      before_optimization_def Let_def)

text \<open>
  C8. Trial generation runs a fixed number of passes over the two generation strategies:
  the experiment ends with exactly 20 trials, each from a \<^verbatim>\<open>gen(1)\<close> call; the first 5
  come from the Sobol generator and the following 15 from the GP+EI generator, so every
  Sobol trial precedes every GP+EI trial; and the GP+EI model that generates trial \<open>n\<close>
  (for \<open>n\<close> from 5 to 19) was built from the experiment's data for all trials
  \<open>0, ..., n - 1\<close> made before it.
\<close>

theorem trial_generation_sobol_then_gpei:
  "length (trials (exp_var (perform_optimization before_optimization))) = 20 \<and>
   map generated_by (trials (exp_var (perform_optimization before_optimization))) =
     replicate 5 SOBOL @ replicate 15 GPEI \<and>
   map num_arms (trials (exp_var (perform_optimization before_optimization))) =
     replicate 20 1 \<and>
   map fitted_on (drop 5 (trials (exp_var (perform_optimization before_optimization)))) =
     map py_range [5..<20]"
proof -
  have no_trials: "trials (exp_var before_optimization) = []"
    by (simp add: before_optimization_def exp_notebook_def)
  have all_trials: "trials (exp_var (perform_optimization before_optimization)) =
      replicate 5 \<lparr>generated_by = SOBOL, num_arms = 1, fitted_on = []\<rparr>
        @ map (\<lambda>n. \<lparr>generated_by = GPEI, num_arms = 1, fitted_on = py_range n\<rparr>) [5..<20]"
    by (simp add: trials_perform_optimization no_trials)
  have gpei_count: "replicate 15 GPEI = map (\<lambda>n. GPEI) [5..<20]"
    by (simp only: map_replicate_const length_upt) simp
  have gen_1: "replicate 20 (1::nat) = replicate 5 1 @ map (\<lambda>n. 1) [5..<20]"
    by (simp only: map_replicate_const length_upt replicate_add [symmetric]) simp
  have "length (trials (exp_var (perform_optimization before_optimization))) = 20"
    by (simp add: all_trials)
  moreover
  have "map generated_by (trials (exp_var (perform_optimization before_optimization))) =
      replicate 5 SOBOL @ replicate 15 GPEI"
    by (simp only: all_trials gpei_count) (simp add: comp_def)
  moreover
  have "map num_arms (trials (exp_var (perform_optimization before_optimization))) =
      replicate 20 1"
    by (simp only: all_trials gen_1) (simp add: comp_def)
  moreover
  have "map fitted_on (drop 5 (trials (exp_var (perform_optimization before_optimization)))) =
      map py_range [5..<20]"
    by (simp add: all_trials comp_def)
  ultimately show ?thesis
    by blast
qed

end
